theory Spec2Isabelle
  imports Main "HOL-Library.Word"
begin

section \<open>The generated JNI header \<open>ffx_numerics_fft_CLFFT.h\<close>\<close>

text \<open>
  The file under verification is a header produced by \<open>javah\<close> for the Java class
  \<open>ffx.numerics.fft.CLFFT\<close>. It holds an include of \<open>jni.h\<close>, an include guard, a
  conditional \<open>extern "C"\<close> block and six function prototypes. The model below keeps
  the file line by line, runs the conditional directives on it for a given set of
  defined macros, and reads the surviving tokens into a list of external declarations
  with their linkage.
\<close>

subsection \<open>Types and prototypes\<close>

text \<open>
  The type names that occur in the prototypes (\<open>JNIEnv *\<close>, \<open>jclass\<close>, \<open>jlong\<close>,
  \<open>jint\<close>) and \<open>jobject\<close>, the type a non-static native method receives in second
  position. All of them are declared by \<open>jni.h\<close>.
\<close>

datatype jni_type = JNIEnv_ptr | Jclass | Jobject | Jlong | Jint

text \<open>
  One function declarator as written in the header:
  \<^verbatim>\<open>JNIEXPORT <result> JNICALL <symbol> (<params>);\<close>
  A declarator followed by \<open>;\<close> has no body; one followed by a compound statement
  would carry its text.
\<close>

record function_decl =
  fd_export :: string
  fd_result :: jni_type
  fd_callconv :: string
  fd_symbol :: string
  fd_params :: "jni_type list"
  fd_body :: "string list option"

definition Java_ffx_numerics_fft_CLFFT_do_1clfftSetup :: function_decl where
  "Java_ffx_numerics_fft_CLFFT_do_1clfftSetup =
     \<lparr>fd_export = ''JNIEXPORT'', fd_result = Jlong, fd_callconv = ''JNICALL'',
      fd_symbol = ''Java_ffx_numerics_fft_CLFFT_do_1clfftSetup'',
      fd_params = [JNIEnv_ptr, Jclass],
      fd_body = None\<rparr>"

definition Java_ffx_numerics_fft_CLFFT_do_1clfftCreateDefaultPlan :: function_decl where
  "Java_ffx_numerics_fft_CLFFT_do_1clfftCreateDefaultPlan =
     \<lparr>fd_export = ''JNIEXPORT'', fd_result = Jlong, fd_callconv = ''JNICALL'',
      fd_symbol = ''Java_ffx_numerics_fft_CLFFT_do_1clfftCreateDefaultPlan'',
      fd_params = [JNIEnv_ptr, Jclass, Jlong, Jlong, Jint, Jint, Jint, Jint],
      fd_body = None\<rparr>"

definition Java_ffx_numerics_fft_CLFFT_do_1clfftSetPlanPrecision :: function_decl where
  "Java_ffx_numerics_fft_CLFFT_do_1clfftSetPlanPrecision =
     \<lparr>fd_export = ''JNIEXPORT'', fd_result = Jint, fd_callconv = ''JNICALL'',
      fd_symbol = ''Java_ffx_numerics_fft_CLFFT_do_1clfftSetPlanPrecision'',
      fd_params = [JNIEnv_ptr, Jclass, Jlong, Jint],
      fd_body = None\<rparr>"

definition Java_ffx_numerics_fft_CLFFT_do_1clfftSetLayout :: function_decl where
  "Java_ffx_numerics_fft_CLFFT_do_1clfftSetLayout =
     \<lparr>fd_export = ''JNIEXPORT'', fd_result = Jint, fd_callconv = ''JNICALL'',
      fd_symbol = ''Java_ffx_numerics_fft_CLFFT_do_1clfftSetLayout'',
      fd_params = [JNIEnv_ptr, Jclass, Jlong, Jint, Jint],
      fd_body = None\<rparr>"

definition Java_ffx_numerics_fft_CLFFT_do_1clfftExecuteTransform :: function_decl where
  "Java_ffx_numerics_fft_CLFFT_do_1clfftExecuteTransform =
     \<lparr>fd_export = ''JNIEXPORT'', fd_result = Jint, fd_callconv = ''JNICALL'',
      fd_symbol = ''Java_ffx_numerics_fft_CLFFT_do_1clfftExecuteTransform'',
      fd_params = [JNIEnv_ptr, Jclass, Jlong, Jint, Jlong, Jlong, Jlong],
      fd_body = None\<rparr>"

definition Java_ffx_numerics_fft_CLFFT_do_1clfftDestroyPlan :: function_decl where
  "Java_ffx_numerics_fft_CLFFT_do_1clfftDestroyPlan =
     \<lparr>fd_export = ''JNIEXPORT'', fd_result = Jint, fd_callconv = ''JNICALL'',
      fd_symbol = ''Java_ffx_numerics_fft_CLFFT_do_1clfftDestroyPlan'',
      fd_params = [JNIEnv_ptr, Jclass, Jlong],
      fd_body = None\<rparr>"

subsection \<open>The file, line by line\<close>

text \<open>
  What is left of a line that is not a directive: the opening \<open>extern "C" {\<close>, the
  closing \<open>}\<close>, or a function declarator.
\<close>

datatype token = Extern_C_open | Close_brace | Function function_decl

datatype line
  = Comment "string list"
  | Include string
  | Ifndef string
  | Ifdef string
  | Define string
  | Endif
  | Code token

definition include_guard :: string where
  "include_guard = ''_Included_ffx_numerics_fft_CLFFT''"

definition ffx_numerics_fft_CLFFT_h :: "line list" where
  "ffx_numerics_fft_CLFFT_h =
    [Comment [''DO NOT EDIT THIS FILE - it is machine generated''],
     Include ''jni.h'',
     Comment [''Header for class ffx_numerics_fft_CLFFT''],
     Ifndef ''_Included_ffx_numerics_fft_CLFFT'',
     Define ''_Included_ffx_numerics_fft_CLFFT'',
     Ifdef ''__cplusplus'',
     Code Extern_C_open,
     Endif,
     Comment [''Class:     ffx_numerics_fft_CLFFT'',
              ''Method:    do_clfftSetup'',
              ''Signature: ()J''],
     Code (Function Java_ffx_numerics_fft_CLFFT_do_1clfftSetup),
     Comment [''Class:     ffx_numerics_fft_CLFFT'',
              ''Method:    do_clfftCreateDefaultPlan'',
              ''Signature: (JJIIII)J''],
     Code (Function Java_ffx_numerics_fft_CLFFT_do_1clfftCreateDefaultPlan),
     Comment [''Class:     ffx_numerics_fft_CLFFT'',
              ''Method:    do_clfftSetPlanPrecision'',
              ''Signature: (JI)I''],
     Code (Function Java_ffx_numerics_fft_CLFFT_do_1clfftSetPlanPrecision),
     Comment [''Class:     ffx_numerics_fft_CLFFT'',
              ''Method:    do_clfftSetLayout'',
              ''Signature: (JII)I''],
     Code (Function Java_ffx_numerics_fft_CLFFT_do_1clfftSetLayout),
     Comment [''Class:     ffx_numerics_fft_CLFFT'',
              ''Method:    do_clfftExecuteTransform'',
              ''Signature: (JIJJJ)I''],
     Code (Function Java_ffx_numerics_fft_CLFFT_do_1clfftExecuteTransform),
     Comment [''Class:     ffx_numerics_fft_CLFFT'',
              ''Method:    do_clfftDestroyPlan'',
              ''Signature: (J)I''],
     Code (Function Java_ffx_numerics_fft_CLFFT_do_1clfftDestroyPlan),
     Ifdef ''__cplusplus'',
     Code Close_brace,
     Endif,
     Endif]"

subsection \<open>Conditional inclusion\<close>

text \<open>
  The directives are run over the lines with the list of macros defined so far and the
  stack of open conditionals (innermost first, \<open>True\<close> for a group whose condition
  held). A line takes effect only when every open conditional held. An \<open>#endif\<close> with
  nothing open, or a conditional left open at the end of the file, is an error.

  \<open>jni.h\<close> is not part of the repository: its text is not expanded, and the macro list
  handed to \<open>preprocess\<close> stands for the macros in force once it has been read,
  compiler-defined ones such as \<open>__cplusplus\<close> included.
\<close>

definition live :: "bool list \<Rightarrow> bool" where
  "live conds = (False \<notin> set conds)"

fun preprocess :: "line list \<Rightarrow> string list \<Rightarrow> bool list \<Rightarrow> (string list \<times> token list) option" where
  "preprocess [] env conds = (if conds = [] then Some (env, []) else None)"
| "preprocess (Comment _ # ls) env conds = preprocess ls env conds"
| "preprocess (Include _ # ls) env conds = preprocess ls env conds"
| "preprocess (Ifndef m # ls) env conds = preprocess ls env ((m \<notin> set env) # conds)"
| "preprocess (Ifdef m # ls) env conds = preprocess ls env ((m \<in> set env) # conds)"
| "preprocess (Define m # ls) env conds =
     preprocess ls (if live conds then m # env else env) conds"
| "preprocess (Endif # ls) env conds =
     (case conds of [] \<Rightarrow> None | _ # outer \<Rightarrow> preprocess ls env outer)"
| "preprocess (Code t # ls) env conds =
     (if live conds
      then map_option (\<lambda>(env', ts). (env', t # ts)) (preprocess ls env conds)
      else preprocess ls env conds)"

subsection \<open>External declarations and their linkage\<close>

text \<open>
  A C++ compiler defines \<open>__cplusplus\<close>, a C compiler does not. In C++ a declaration
  inside an \<open>extern "C" { ... }\<close> block has C linkage and one outside has C++ linkage;
  in C every function has C linkage and \<open>extern "C"\<close> is a syntax error. A closing brace
  with no block open, or a block left open, is an error too.
\<close>

datatype language = Lang_C | Lang_Cxx

datatype linkage = C_linkage | Cxx_linkage

definition language_of :: "string list \<Rightarrow> language" where
  "language_of env = (if ''__cplusplus'' \<in> set env then Lang_Cxx else Lang_C)"

fun external_decls :: "language \<Rightarrow> nat \<Rightarrow> token list \<Rightarrow> (linkage \<times> function_decl) list option" where
  "external_decls lang depth [] = (if depth = 0 then Some [] else None)"
| "external_decls lang depth (Extern_C_open # ts) =
     (if lang = Lang_C then None else external_decls lang (Suc depth) ts)"
| "external_decls lang depth (Close_brace # ts) =
     (case depth of 0 \<Rightarrow> None | Suc d \<Rightarrow> external_decls lang d ts)"
| "external_decls lang depth (Function f # ts) =
     map_option
       ((#) (if lang = Lang_C \<or> 0 < depth then C_linkage else Cxx_linkage, f))
       (external_decls lang depth ts)"

definition translate :: "line list \<Rightarrow> string list \<Rightarrow> (string list \<times> (linkage \<times> function_decl) list) option" where
  "translate file env =
     (case preprocess file env [] of
        None \<Rightarrow> None
      | Some (env', ts) \<Rightarrow> map_option (Pair env') (external_decls (language_of env) 0 ts))"

text \<open>The functions the header declares when it is included with the macros \<open>env\<close>.\<close>

definition entry_points :: "string list \<Rightarrow> (linkage \<times> function_decl) list option" where
  "entry_points env = map_option snd (translate ffx_numerics_fft_CLFFT_h env)"

definition declared :: "string list \<Rightarrow> string \<Rightarrow> function_decl option" where
  "declared env s =
     (case entry_points env of
        None \<Rightarrow> None
      | Some ds \<Rightarrow> find (\<lambda>f. fd_symbol f = s) (map snd ds))"

text \<open>
  Every JNI native function receives the environment pointer and the class (or the
  receiving object) before the arguments of the Java method.
\<close>

definition implicit_params :: "function_decl \<Rightarrow> jni_type list" where
  "implicit_params f = take 2 (fd_params f)"

definition explicit_params :: "function_decl \<Rightarrow> jni_type list" where
  "explicit_params f = drop 2 (fd_params f)"

definition signature_of :: "string list \<Rightarrow> string \<Rightarrow> (jni_type list \<times> jni_type) option" where
  "signature_of env s =
     map_option (\<lambda>f. (explicit_params f, fd_result f)) (declared env s)"

subsection \<open>Argument values\<close>

text \<open>
  Modelled from the spec: \<open>jlong\<close> and \<open>jint\<close> are typedefs of \<open>jni.h\<close>, which is not
  in the repository. The spec gives handles "as 64-bit integers" and option codes "as
  32-bit integers"; a \<open>jlong\<close> argument is a 64-bit word and a \<open>jint\<close> argument a
  32-bit word. The width of the pointer and reference types is left open.
\<close>

datatype jvalue = Jlong_val "64 word" | Jint_val "32 word"

fun type_of :: "jvalue \<Rightarrow> jni_type" where
  "type_of (Jlong_val _) = Jlong"
| "type_of (Jint_val _) = Jint"

fun width :: "jni_type \<Rightarrow> nat option" where
  "width Jlong = Some (size (0 :: 64 word))"
| "width Jint = Some (size (0 :: 32 word))"
| "width _ = None"

subsection \<open>The interface table of the specification\<close>

text \<open>
  The six operations of the table in section 6 of the specification, in its order, and
  the symbol each one is declared under (the Java methods \<open>do_clfftSetup\<close>, ...,
  \<open>do_clfftDestroyPlan\<close> of the comments in the header).
\<close>

datatype operation
  = Setup
  | Create_default_plan
  | Set_plan_precision
  | Set_layout
  | Execute_transform
  | Destroy_plan

definition operations :: "operation list" where
  "operations =
     [Setup, Create_default_plan, Set_plan_precision, Set_layout, Execute_transform,
      Destroy_plan]"

fun symbol_of :: "operation \<Rightarrow> string" where
  "symbol_of Setup = ''Java_ffx_numerics_fft_CLFFT_do_1clfftSetup''"
| "symbol_of Create_default_plan = ''Java_ffx_numerics_fft_CLFFT_do_1clfftCreateDefaultPlan''"
| "symbol_of Set_plan_precision = ''Java_ffx_numerics_fft_CLFFT_do_1clfftSetPlanPrecision''"
| "symbol_of Set_layout = ''Java_ffx_numerics_fft_CLFFT_do_1clfftSetLayout''"
| "symbol_of Execute_transform = ''Java_ffx_numerics_fft_CLFFT_do_1clfftExecuteTransform''"
| "symbol_of Destroy_plan = ''Java_ffx_numerics_fft_CLFFT_do_1clfftDestroyPlan''"

text \<open>
  The words the table uses for inputs and outputs. The table's "dimension sizes" is
  one \<open>Dimension_size\<close> per size passed.
\<close>

datatype role
  = Context_handle
  | Dimension_handle
  | Rank
  | Dimension_size
  | Plan_handle
  | Precision_code
  | Layout_code
  | Direction_code
  | Queue_handle
  | Buffer_handle
  | Status_code

datatype role_kind = Opaque_handle | Option_code | Plain_integer

fun kind :: "role \<Rightarrow> role_kind" where
  "kind Context_handle = Opaque_handle"
| "kind Dimension_handle = Opaque_handle"
| "kind Plan_handle = Opaque_handle"
| "kind Queue_handle = Opaque_handle"
| "kind Buffer_handle = Opaque_handle"
| "kind Precision_code = Option_code"
| "kind Layout_code = Option_code"
| "kind Direction_code = Option_code"
| "kind Status_code = Option_code"
| "kind Rank = Plain_integer"
| "kind Dimension_size = Plain_integer"

fun spec_inputs :: "operation \<Rightarrow> role list" where
  "spec_inputs Setup = []"
| "spec_inputs Create_default_plan =
     [Context_handle, Dimension_handle, Rank, Dimension_size, Dimension_size, Dimension_size]"
| "spec_inputs Set_plan_precision = [Plan_handle, Precision_code]"
| "spec_inputs Set_layout = [Plan_handle, Layout_code, Layout_code]"
| "spec_inputs Execute_transform =
     [Plan_handle, Direction_code, Queue_handle, Buffer_handle, Buffer_handle]"
| "spec_inputs Destroy_plan = [Plan_handle]"

fun spec_output :: "operation \<Rightarrow> role" where
  "spec_output Setup = Context_handle"
| "spec_output Create_default_plan = Plan_handle"
| "spec_output Set_plan_precision = Status_code"
| "spec_output Set_layout = Status_code"
| "spec_output Execute_transform = Status_code"
| "spec_output Destroy_plan = Status_code"

text \<open>
  What the specification asks of the type that carries a role: a handle travels as a
  \<open>jlong\<close> of 64 bits, a code as a \<open>jint\<close> of 32 bits; it says nothing of the plain
  integers.
\<close>

fun represented :: "role \<Rightarrow> jni_type \<Rightarrow> bool" where
  "represented r t =
     (case kind r of
        Opaque_handle \<Rightarrow> t = Jlong \<and> width t = Some 64
      | Option_code \<Rightarrow> t = Jint \<and> width t = Some 32
      | Plain_integer \<Rightarrow> True)"

subsection \<open>Reading the file as a whole\<close>

text \<open>Every function declarator of the file, whatever conditional it stands in.\<close>

fun declarators :: "line list \<Rightarrow> function_decl list" where
  "declarators [] = []"
| "declarators (Code (Function f) # ls) = f # declarators ls"
| "declarators (_ # ls) = declarators ls"

definition prototypes :: "function_decl list" where
  "prototypes = declarators ffx_numerics_fft_CLFFT_h"

text \<open>
  A call of an operation passes one value for each explicit parameter of its
  declaration, of that parameter's type.
\<close>

definition accepts :: "string list \<Rightarrow> operation \<Rightarrow> jvalue list \<Rightarrow> bool" where
  "accepts env op args =
     (case signature_of env (symbol_of op) of
        None \<Rightarrow> False
      | Some (ps, r) \<Rightarrow> map type_of args = ps)"

text \<open>
  The widths of an operation's explicit parameters and of its result, and the roles of
  the table set beside the declared types.
\<close>

definition widths_of :: "string list \<Rightarrow> operation \<Rightarrow> (nat option list \<times> nat option) option" where
  "widths_of env op =
     map_option (\<lambda>(ps, r). (map width ps, width r)) (signature_of env (symbol_of op))"

definition labelled :: "string list \<Rightarrow> operation \<Rightarrow> ((role \<times> jni_type) list \<times> role \<times> jni_type) option" where
  "labelled env op =
     map_option (\<lambda>(ps, r). (zip (spec_inputs op) ps, spec_output op, r))
       (signature_of env (symbol_of op))"

definition conforms :: "string list \<Rightarrow> operation \<Rightarrow> bool" where
  "conforms env op =
     (case signature_of env (symbol_of op) of
        None \<Rightarrow> False
      | Some (ps, r) \<Rightarrow>
          list_all2 represented (spec_inputs op) ps \<and> represented (spec_output op) r)"

subsection \<open>Handles across the boundary\<close>





section \<open>Properties\<close>

subsection \<open>What the header yields\<close>

lemmas decl_defs =
  Java_ffx_numerics_fft_CLFFT_do_1clfftSetup_def
  Java_ffx_numerics_fft_CLFFT_do_1clfftCreateDefaultPlan_def
  Java_ffx_numerics_fft_CLFFT_do_1clfftSetPlanPrecision_def
  Java_ffx_numerics_fft_CLFFT_do_1clfftSetLayout_def
  Java_ffx_numerics_fft_CLFFT_do_1clfftExecuteTransform_def
  Java_ffx_numerics_fft_CLFFT_do_1clfftDestroyPlan_def

lemma prototypes_eq:
  "prototypes =
     [Java_ffx_numerics_fft_CLFFT_do_1clfftSetup,
      Java_ffx_numerics_fft_CLFFT_do_1clfftCreateDefaultPlan,
      Java_ffx_numerics_fft_CLFFT_do_1clfftSetPlanPrecision,
      Java_ffx_numerics_fft_CLFFT_do_1clfftSetLayout,
      Java_ffx_numerics_fft_CLFFT_do_1clfftExecuteTransform,
      Java_ffx_numerics_fft_CLFFT_do_1clfftDestroyPlan]"
  by (simp add: prototypes_def ffx_numerics_fft_CLFFT_h_def)

text \<open>
  First inclusion: the guard macro gets defined and the six declarators come out with
  C linkage, under a C compiler as under a C++ compiler.
\<close>

lemma translate_first_inclusion:
  assumes "include_guard \<notin> set env"
  shows "translate ffx_numerics_fft_CLFFT_h env =
           Some (include_guard # env, map (Pair C_linkage) prototypes)"
  using assms
  by (simp add: translate_def ffx_numerics_fft_CLFFT_h_def include_guard_def live_def
      language_of_def prototypes_def)

text \<open>A further inclusion, with the guard macro defined, yields nothing.\<close>

lemma translate_repeated_inclusion:
  assumes "include_guard \<in> set env"
  shows "translate ffx_numerics_fft_CLFFT_h env = Some (env, [])"
  using assms
  by (simp add: translate_def ffx_numerics_fft_CLFFT_h_def include_guard_def live_def
      language_of_def)

lemma entry_points_first_inclusion:
  "include_guard \<notin> set env \<Longrightarrow> entry_points env = Some (map (Pair C_linkage) prototypes)"
  by (simp add: entry_points_def translate_first_inclusion)

lemma entry_points_repeated_inclusion:
  "include_guard \<in> set env \<Longrightarrow> entry_points env = Some []"
  by (simp add: entry_points_def translate_repeated_inclusion)

text \<open>
  The linkage rule tells the two languages apart: without the \<open>extern "C"\<close> block a
  C++ compiler would give a declarator C++ linkage, and a C compiler rejects the block.
\<close>

lemma external_decls_outside_block:
  "external_decls Lang_Cxx 0 [Function f] = Some [(Cxx_linkage, f)]"
  by simp

lemma external_decls_block_in_C:
  "external_decls Lang_C 0 (Extern_C_open # ts) = None"
  by simp

text \<open>Including the header a second time adds nothing to the first inclusion.\<close>

lemma translate_twice:
  assumes "translate ffx_numerics_fft_CLFFT_h env = Some (env', ds)"
  shows "translate ffx_numerics_fft_CLFFT_h env' = Some (env', [])"
proof (cases "include_guard \<in> set env")
  case True
  with assms have "env' = env"
    by (simp add: translate_repeated_inclusion)
  with True show ?thesis
    by (simp add: translate_repeated_inclusion)
next
  case False
  with assms have "env' = include_guard # env"
    by (simp add: translate_first_inclusion)
  then show ?thesis
    by (simp add: translate_repeated_inclusion)
qed

lemma declared_first_inclusion:
  assumes "include_guard \<notin> set env"
  shows "declared env (symbol_of op) =
           Some (case op of
                   Setup \<Rightarrow> Java_ffx_numerics_fft_CLFFT_do_1clfftSetup
                 | Create_default_plan \<Rightarrow> Java_ffx_numerics_fft_CLFFT_do_1clfftCreateDefaultPlan
                 | Set_plan_precision \<Rightarrow> Java_ffx_numerics_fft_CLFFT_do_1clfftSetPlanPrecision
                 | Set_layout \<Rightarrow> Java_ffx_numerics_fft_CLFFT_do_1clfftSetLayout
                 | Execute_transform \<Rightarrow> Java_ffx_numerics_fft_CLFFT_do_1clfftExecuteTransform
                 | Destroy_plan \<Rightarrow> Java_ffx_numerics_fft_CLFFT_do_1clfftDestroyPlan)"
proof -
  have ds: "entry_points env = Some (map (Pair C_linkage) prototypes)"
    using assms by (rule entry_points_first_inclusion)
  show ?thesis
    by (cases op) (simp_all add: declared_def ds prototypes_eq comp_def, simp_all add: decl_defs)
qed

lemma signature_first_inclusion:
  assumes "include_guard \<notin> set env"
  shows "signature_of env (symbol_of op) =
           Some (case op of
                   Setup \<Rightarrow> ([], Jlong)
                 | Create_default_plan \<Rightarrow> ([Jlong, Jlong, Jint, Jint, Jint, Jint], Jlong)
                 | Set_plan_precision \<Rightarrow> ([Jlong, Jint], Jint)
                 | Set_layout \<Rightarrow> ([Jlong, Jint, Jint], Jint)
                 | Execute_transform \<Rightarrow> ([Jlong, Jint, Jlong, Jlong, Jlong], Jint)
                 | Destroy_plan \<Rightarrow> ([Jlong], Jint))"
  unfolding signature_of_def declared_first_inclusion [OF assms]
  by (cases op) (simp_all add: explicit_params_def decl_defs)

subsection \<open>Calls\<close>

lemma type_of_Jlong: "type_of v = Jlong \<longleftrightarrow> (\<exists>w. v = Jlong_val w)"
  by (cases v) simp_all

lemma type_of_Jint: "type_of v = Jint \<longleftrightarrow> (\<exists>w. v = Jint_val w)"
  by (cases v) simp_all

lemma map_type_of_Jint_val: "map type_of (map Jint_val ws) = replicate (length ws) Jint"
  by (induction ws) simp_all

lemma replicate_eq_three: "replicate n x = [x, x, x] \<longleftrightarrow> n = 3"
proof
  assume "replicate n x = [x, x, x]"
  then have "length (replicate n x) = length [x, x, x]"
    by (rule arg_cong)
  then show "n = 3" by simp
next
  assume "n = 3"
  then show "replicate n x = [x, x, x]"
    by (simp add: numeral_3_eq_3)
qed

subsection \<open>The declared entry points\<close>

text \<open>
  C1. On its first inclusion the header declares exactly six functions, one for each
  operation of the interface table (setup, create default plan, set plan precision,
  set layout, execute transform, destroy plan) and in that order: the declared symbols
  are those of the six operations, the six symbols differ from one another, and the
  six operations are all there are.
\<close>

theorem six_entry_points:
  assumes "include_guard \<notin> set env"
  shows "map_option (map (fd_symbol \<circ> snd)) (entry_points env) = Some (map symbol_of operations)
       \<and> length operations = 6
       \<and> distinct (map symbol_of operations)
       \<and> set operations = UNIV"
proof -
  have "map_option (map (fd_symbol \<circ> snd)) (entry_points env) = Some (map symbol_of operations)"
    by (simp add: entry_points_first_inclusion [OF assms] prototypes_eq operations_def decl_defs)
  moreover have "length operations = 6"
    by (simp add: operations_def)
  moreover have "distinct (map symbol_of operations)"
    by (simp add: operations_def)
  moreover have "set operations = UNIV"
  proof -
    have "op \<in> set operations" for op
      by (cases op) (simp_all add: operations_def)
    then show ?thesis by blast
  qed
  ultimately show ?thesis by blast
qed

theorem six_entry_points_witness:
  "include_guard \<notin> set [''__cplusplus'']
   \<and> map_option (map (fd_symbol \<circ> snd)) (entry_points [''__cplusplus'']) =
       Some [''Java_ffx_numerics_fft_CLFFT_do_1clfftSetup'',
             ''Java_ffx_numerics_fft_CLFFT_do_1clfftCreateDefaultPlan'',
             ''Java_ffx_numerics_fft_CLFFT_do_1clfftSetPlanPrecision'',
             ''Java_ffx_numerics_fft_CLFFT_do_1clfftSetLayout'',
             ''Java_ffx_numerics_fft_CLFFT_do_1clfftExecuteTransform'',
             ''Java_ffx_numerics_fft_CLFFT_do_1clfftDestroyPlan'']"
proof -
  have h: "include_guard \<notin> set [''__cplusplus'']"
    by (simp add: include_guard_def)
  show ?thesis
    using h six_entry_points [OF h] by (simp add: operations_def)
qed

text \<open>
  C2. For every operation, each input or output that the table calls a handle (context,
  dimension, plan, queue, buffer) is declared \<open>jlong\<close>, 64 bits wide, and each one it
  calls a code (precision, layout, direction, status) is declared \<open>jint\<close>, 32 bits
  wide.
\<close>

theorem handles_jlong_codes_jint:
  assumes "include_guard \<notin> set env"
  shows "conforms env op"
  unfolding conforms_def signature_first_inclusion [OF assms]
  by (cases op) (simp_all add: word_size)

theorem handles_jlong_codes_jint_witness:
  "include_guard \<notin> set []
   \<and> conforms [] Setup \<and> conforms [] Create_default_plan \<and> conforms [] Set_plan_precision
   \<and> conforms [] Set_layout \<and> conforms [] Execute_transform \<and> conforms [] Destroy_plan"
proof -
  have h: "include_guard \<notin> set []"
    by simp
  show ?thesis
    using h handles_jlong_codes_jint [OF h] by simp
qed

text \<open>
  C3. Create-default-plan is declared with two \<open>jlong\<close> arguments followed by four
  \<open>jint\<close> arguments and a \<open>jlong\<close> result: 64, 64, 32, 32, 32, 32 bits in, 64 bits
  out. They stand for the context handle, the dimension handle, the rank and the
  dimension sizes, and for the plan handle returned.
\<close>

theorem create_default_plan_signature:
  assumes "include_guard \<notin> set env"
  shows "signature_of env (symbol_of Create_default_plan) =
           Some ([Jlong, Jlong, Jint, Jint, Jint, Jint], Jlong)
       \<and> widths_of env Create_default_plan =
           Some ([Some 64, Some 64, Some 32, Some 32, Some 32, Some 32], Some 64)
       \<and> labelled env Create_default_plan =
           Some ([(Context_handle, Jlong), (Dimension_handle, Jlong), (Rank, Jint),
                  (Dimension_size, Jint), (Dimension_size, Jint), (Dimension_size, Jint)],
                 Plan_handle, Jlong)"
  unfolding widths_of_def labelled_def signature_first_inclusion [OF assms]
  by (simp add: word_size)

theorem create_default_plan_signature_witness:
  "include_guard \<notin> set [''__cplusplus'']
   \<and> signature_of [''__cplusplus''] (symbol_of Create_default_plan) =
       Some ([Jlong, Jlong, Jint, Jint, Jint, Jint], Jlong)
   \<and> widths_of [''__cplusplus''] Create_default_plan =
       Some ([Some 64, Some 64, Some 32, Some 32, Some 32, Some 32], Some 64)"
proof -
  have h: "include_guard \<notin> set [''__cplusplus'']"
    by (simp add: include_guard_def)
  show ?thesis
    using h create_default_plan_signature [OF h] by blast
qed

text \<open>
  C4. Execute-transform is declared with exactly five arguments, in this order: plan
  handle (\<open>jlong\<close>), direction code (\<open>jint\<close>), queue handle, input buffer handle and
  output buffer handle (\<open>jlong\<close> each); it returns a status code (\<open>jint\<close>).
\<close>

theorem execute_transform_signature:
  assumes "include_guard \<notin> set env"
  shows "signature_of env (symbol_of Execute_transform) =
           Some ([Jlong, Jint, Jlong, Jlong, Jlong], Jint)
       \<and> widths_of env Execute_transform =
           Some ([Some 64, Some 32, Some 64, Some 64, Some 64], Some 32)
       \<and> labelled env Execute_transform =
           Some ([(Plan_handle, Jlong), (Direction_code, Jint), (Queue_handle, Jlong),
                  (Buffer_handle, Jlong), (Buffer_handle, Jlong)],
                 Status_code, Jint)"
  unfolding widths_of_def labelled_def signature_first_inclusion [OF assms]
  by (simp add: word_size)

theorem execute_transform_signature_witness:
  "include_guard \<notin> set []
   \<and> signature_of [] (symbol_of Execute_transform) =
       Some ([Jlong, Jint, Jlong, Jlong, Jlong], Jint)
   \<and> widths_of [] Execute_transform =
       Some ([Some 64, Some 32, Some 64, Some 64, Some 64], Some 32)"
proof -
  have h: "include_guard \<notin> set []"
    by simp
  show ?thesis
    using h execute_transform_signature [OF h] by blast
qed

text \<open>
  C5. Setup is declared with the two implicit JNI parameters (\<open>JNIEnv *\<close>, \<open>jclass\<close>)
  and no others; it returns the context handle as a \<open>jlong\<close>, 64 bits wide.
\<close>

theorem setup_signature:
  assumes "include_guard \<notin> set env"
  shows "map_option (\<lambda>f. (implicit_params f, explicit_params f, fd_result f))
           (declared env (symbol_of Setup)) = Some ([JNIEnv_ptr, Jclass], [], Jlong)
       \<and> widths_of env Setup = Some ([], Some 64)
       \<and> labelled env Setup = Some ([], Context_handle, Jlong)"
  unfolding widths_of_def labelled_def signature_first_inclusion [OF assms]
    declared_first_inclusion [OF assms]
  by (simp add: word_size implicit_params_def explicit_params_def
      Java_ffx_numerics_fft_CLFFT_do_1clfftSetup_def)

theorem setup_signature_witness:
  "include_guard \<notin> set [''__cplusplus'']
   \<and> map_option fd_params (declared [''__cplusplus''] (symbol_of Setup)) =
       Some [JNIEnv_ptr, Jclass]
   \<and> widths_of [''__cplusplus''] Setup = Some ([], Some 64)"
proof -
  have h: "include_guard \<notin> set [''__cplusplus'']"
    by (simp add: include_guard_def)
  have "map_option (\<lambda>f. (implicit_params f, explicit_params f, fd_result f))
          (declared [''__cplusplus''] (symbol_of Setup)) = Some ([JNIEnv_ptr, Jclass], [], Jlong)"
    and w: "widths_of [''__cplusplus''] Setup = Some ([], Some 64)"
    using setup_signature [OF h] by blast+
  then obtain f where f: "declared [''__cplusplus''] (symbol_of Setup) = Some f"
    and "implicit_params f = [JNIEnv_ptr, Jclass]" and "explicit_params f = []"
    by auto
  then have "fd_params f = [JNIEnv_ptr, Jclass]"
    using append_take_drop_id [of 2 "fd_params f"]
    by (simp add: implicit_params_def explicit_params_def)
  with h f w show ?thesis by simp
qed

text \<open>
  C6. Set-plan-precision is declared with a plan handle (\<open>jlong\<close>) and a precision code
  (\<open>jint\<close>); set-layout with a plan handle (\<open>jlong\<close>), an input layout code and an
  output layout code (\<open>jint\<close> each). Both return a status code (\<open>jint\<close>).
\<close>

theorem plan_configuration_signatures:
  assumes "include_guard \<notin> set env"
  shows "signature_of env (symbol_of Set_plan_precision) = Some ([Jlong, Jint], Jint)
       \<and> widths_of env Set_plan_precision = Some ([Some 64, Some 32], Some 32)
       \<and> labelled env Set_plan_precision =
           Some ([(Plan_handle, Jlong), (Precision_code, Jint)], Status_code, Jint)
       \<and> signature_of env (symbol_of Set_layout) = Some ([Jlong, Jint, Jint], Jint)
       \<and> widths_of env Set_layout = Some ([Some 64, Some 32, Some 32], Some 32)
       \<and> labelled env Set_layout =
           Some ([(Plan_handle, Jlong), (Layout_code, Jint), (Layout_code, Jint)],
                 Status_code, Jint)"
  unfolding widths_of_def labelled_def signature_first_inclusion [OF assms]
  by (simp add: word_size)

theorem plan_configuration_signatures_witness:
  "include_guard \<notin> set []
   \<and> signature_of [] (symbol_of Set_plan_precision) = Some ([Jlong, Jint], Jint)
   \<and> signature_of [] (symbol_of Set_layout) = Some ([Jlong, Jint, Jint], Jint)"
proof -
  have h: "include_guard \<notin> set []"
    by simp
  show ?thesis
    using h plan_configuration_signatures [OF h] by blast
qed

text \<open>
  C7. Destroy-plan is declared with exactly one argument, the plan handle (\<open>jlong\<close>,
  64 bits), and returns a status code (\<open>jint\<close>, 32 bits).
\<close>

theorem destroy_plan_signature:
  assumes "include_guard \<notin> set env"
  shows "signature_of env (symbol_of Destroy_plan) = Some ([Jlong], Jint)
       \<and> widths_of env Destroy_plan = Some ([Some 64], Some 32)
       \<and> labelled env Destroy_plan = Some ([(Plan_handle, Jlong)], Status_code, Jint)"
  unfolding widths_of_def labelled_def signature_first_inclusion [OF assms]
  by (simp add: word_size)

theorem destroy_plan_signature_witness:
  "include_guard \<notin> set [''__cplusplus'']
   \<and> signature_of [''__cplusplus''] (symbol_of Destroy_plan) = Some ([Jlong], Jint)
   \<and> widths_of [''__cplusplus''] Destroy_plan = Some ([Some 64], Some 32)"
proof -
  have h: "include_guard \<notin> set [''__cplusplus'']"
    by (simp add: include_guard_def)
  show ?thesis
    using h destroy_plan_signature [OF h] by blast
qed

text \<open>
  C8. The file holds no executable logic: each of its six function declarators ends
  without a body, and whatever macros are defined when it is included, no function
  with a body comes out of it.
\<close>

theorem no_function_bodies:
  "map fd_body (declarators ffx_numerics_fft_CLFFT_h) = [None, None, None, None, None, None]
   \<and> map_option (filter (\<lambda>(l, f). fd_body f \<noteq> None)) (entry_points env) = Some []"
proof -
  have "map fd_body (declarators ffx_numerics_fft_CLFFT_h) = [None, None, None, None, None, None]"
    using prototypes_eq by (simp add: prototypes_def decl_defs)
  moreover have "map_option (filter (\<lambda>(l, f). fd_body f \<noteq> None)) (entry_points env) = Some []"
  proof (cases "include_guard \<in> set env")
    case True
    then show ?thesis
      by (simp add: entry_points_repeated_inclusion)
  next
    case False
    then show ?thesis
      by (simp add: entry_points_first_inclusion prototypes_eq decl_defs)
  qed
  ultimately show ?thesis by blast
qed

text \<open>
  C9. After its two \<open>jlong\<close> arguments create-default-plan takes exactly four \<open>jint\<close>
  arguments. A call is accepted exactly when it passes two 64-bit values followed by
  four 32-bit values, so next to the rank a call carries three dimension sizes, never
  more: sizes for a rank above three do not fit.
\<close>

theorem create_default_plan_three_sizes:
  assumes "include_guard \<notin> set env"
  shows "map_option fst (signature_of env (symbol_of Create_default_plan)) =
           Some ([Jlong, Jlong] @ replicate 4 Jint)
       \<and> accepts env Create_default_plan args =
           (\<exists>ctx dim rank d1 d2 d3.
              args = [Jlong_val ctx, Jlong_val dim, Jint_val rank,
                      Jint_val d1, Jint_val d2, Jint_val d3])
       \<and> accepts env Create_default_plan
           (Jlong_val ctx # Jlong_val dim # Jint_val rank # map Jint_val sizes) =
           (length sizes = 3)"
proof -
  have sig: "signature_of env (symbol_of Create_default_plan) =
               Some ([Jlong, Jlong, Jint, Jint, Jint, Jint], Jlong)"
    using signature_first_inclusion [OF assms, of Create_default_plan] by simp
  have acc: "accepts env Create_default_plan vs =
               (map type_of vs = [Jlong, Jlong, Jint, Jint, Jint, Jint])" for vs
    unfolding accepts_def sig by simp
  have "map_option fst (signature_of env (symbol_of Create_default_plan)) =
          Some ([Jlong, Jlong] @ replicate 4 Jint)"
    using sig by (simp add: numeral_eq_Suc)
  moreover have "accepts env Create_default_plan args =
      (\<exists>ctx dim rank d1 d2 d3.
         args = [Jlong_val ctx, Jlong_val dim, Jint_val rank,
                 Jint_val d1, Jint_val d2, Jint_val d3])"
    unfolding acc
    by (auto simp add: map_eq_Cons_conv type_of_Jlong type_of_Jint)
  moreover have "accepts env Create_default_plan
      (Jlong_val ctx # Jlong_val dim # Jint_val rank # map Jint_val sizes) = (length sizes = 3)"
    unfolding acc
    using replicate_eq_three [of "length sizes" Jint]
    by (simp add: map_type_of_Jint_val del: map_map)
  ultimately show ?thesis by blast
qed

theorem create_default_plan_three_sizes_witness:
  "include_guard \<notin> set []
   \<and> accepts [] Create_default_plan
       [Jlong_val 1, Jlong_val 2, Jint_val 3, Jint_val 64, Jint_val 64, Jint_val 64]
   \<and> \<not> accepts [] Create_default_plan
       [Jlong_val 1, Jlong_val 2, Jint_val 4, Jint_val 8, Jint_val 8, Jint_val 8, Jint_val 8]"
proof -
  have h: "include_guard \<notin> set []"
    by simp
  have "accepts [] Create_default_plan
          (Jlong_val 1 # Jlong_val 2 # Jint_val 3 # map Jint_val [64, 64, 64]) =
          (length [64 :: 32 word, 64, 64] = 3)"
    using create_default_plan_three_sizes [OF h] by blast
  moreover have "accepts [] Create_default_plan
          (Jlong_val 1 # Jlong_val 2 # Jint_val 4 # map Jint_val [8, 8, 8, 8]) =
          (length [8 :: 32 word, 8, 8, 8] = 3)"
    using create_default_plan_three_sizes [OF h] by blast
  ultimately show ?thesis
    using h by simp
qed




end
